theory Spec2Isabelle
  imports Complex_Main
begin

section \<open>Exceptions\<close>

text \<open>
  The Python exceptions that the modelled functions raise. A raise is a value of this
  type; nothing in the model is left undefined where the source fails.
\<close>

datatype error = TypeError | ValueError | AttributeError | KeyError | IndexError | MachineError

section \<open>The settings-dialog state machine (\<^verbatim>\<open>bot/user_state.py\<close>)\<close>

text \<open>
  \<^verbatim>\<open>UserState.__init__\<close> declares six states, starts in \<^verbatim>\<open>'idle'\<close> and adds six
  transitions with \<^verbatim>\<open>add_transition(trigger, source, dest)\<close>. The source of the last
  one is the wildcard \<^verbatim>\<open>'*'\<close>.
\<close>

datatype state =
    idle
  | awaiting_model
  | awaiting_system_prompt
  | awaiting_temperature
  | awaiting_top_p
  | awaiting_max_tokens

datatype source = Wildcard | From state

type_synonym transition = "string \<times> source \<times> state"

definition initial :: state where
  "initial = idle"

definition transitions :: "transition list" where
  "transitions =
    [(''set_model'', From idle, awaiting_model),
     (''set_system_prompt'', From idle, awaiting_system_prompt),
     (''set_temperature'', From idle, awaiting_temperature),
     (''set_top_p'', From idle, awaiting_top_p),
     (''set_max_tokens'', From idle, awaiting_max_tokens),
     (''return_to_idle'', Wildcard, idle)]"

fun source_matches :: "source \<Rightarrow> state \<Rightarrow> bool" where
  "source_matches Wildcard st = True"
| "source_matches (From s) st = (s = st)"

text \<open>
  Firing a trigger by name, as \<^verbatim>\<open>getattr(state_machine, name)()\<close> does. A name that
  \<^verbatim>\<open>__init__\<close> added no transition for is an \<^verbatim>\<open>AttributeError\<close>; a trigger with no
  transition from the current state is the library's \<^verbatim>\<open>MachineError\<close> and leaves the
  state as it is. Only the triggers that \<^verbatim>\<open>__init__\<close> adds are modelled: attributes that
  the \<^verbatim>\<open>transitions\<close> library puts on every machine by itself are not part of this source.
\<close>

definition fire :: "string \<Rightarrow> state \<Rightarrow> error + state" where
  "fire name st =
     (if name \<notin> set (map fst transitions) then Inl AttributeError
      else case find (\<lambda>(n, src, dst). n = name \<and> source_matches src st) transitions of
             None \<Rightarrow> Inl MachineError
           | Some (n, src, dst) \<Rightarrow> Inr dst)"


section \<open>Python's \<^verbatim>\<open>float()\<close> and \<^verbatim>\<open>int()\<close> on strings\<close>

text \<open>
  The settings validators parse the user's text with the builtins \<^verbatim>\<open>float\<close> and
  \<^verbatim>\<open>int\<close>. Both are modelled on the grammar of the language reference: surrounding
  whitespace is stripped, a sign is optional, digits may be grouped by single underscores,
  and \<^verbatim>\<open>float\<close> also reads a fraction, an exponent and the spellings of infinity and
  not-a-number in any letter case. A finite float is its exact decimal value; rounding to
  binary64 is not modelled. The argument is \<open>None\<close> when the message carries no text (a
  voice message): both builtins raise \<^verbatim>\<open>TypeError\<close> then, and \<^verbatim>\<open>ValueError\<close> on a string
  outside the grammar.
\<close>

datatype pyfloat = Finite rat | PosInf | NegInf | NaN

fun float_le :: "pyfloat \<Rightarrow> pyfloat \<Rightarrow> bool" where
  "float_le NaN y = False"
| "float_le x NaN = False"
| "float_le NegInf y = True"
| "float_le x PosInf = True"
| "float_le (Finite a) (Finite b) = (a \<le> b)"
| "float_le x y = False"

fun float_neg :: "pyfloat \<Rightarrow> pyfloat" where
  "float_neg (Finite a) = Finite (- a)"
| "float_neg PosInf = NegInf"
| "float_neg NegInf = PosInf"
| "float_neg NaN = NaN"

text \<open>\<^verbatim>\<open>x != y\<close> on floats: not-a-number differs from everything, itself included.\<close>

fun float_ne :: "pyfloat \<Rightarrow> pyfloat \<Rightarrow> bool" where
  "float_ne NaN y = True"
| "float_ne x NaN = True"
| "float_ne x y = (x \<noteq> y)"

definition is_space :: "char \<Rightarrow> bool" where
  "is_space c \<longleftrightarrow> c \<in> set [CHR '' '', CHR 0x09, CHR 0x0A, CHR 0x0B, CHR 0x0C, CHR 0x0D]"

definition strip :: "string \<Rightarrow> string" where
  "strip s = rev (dropWhile is_space (rev (dropWhile is_space s)))"

definition digit_val :: "char \<Rightarrow> nat option" where
  "digit_val c = map_of (zip ''0123456789'' [0 ..< 10]) c"

definition lower :: "char \<Rightarrow> char" where
  "lower c =
     (case map_of (zip ''ABCDEFGHIJKLMNOPQRSTUVWXYZ'' ''abcdefghijklmnopqrstuvwxyz'') c of
        None \<Rightarrow> c
      | Some l \<Rightarrow> l)"

text \<open>
  The longest prefix \<^verbatim>\<open>digit (["_"] digit)*\<close> of a string, as the list of its digits, and
  the rest of the string.
\<close>

fun digitpart :: "string \<Rightarrow> nat list \<times> string" where
  "digitpart (c # u # c' # cs) =
     (case digit_val c of
        None \<Rightarrow> ([], c # u # c' # cs)
      | Some d \<Rightarrow>
          if u = CHR ''_'' \<and> digit_val c' \<noteq> None then apfst (Cons d) (digitpart (c' # cs))
          else apfst (Cons d) (digitpart (u # c' # cs)))"
| "digitpart (c # cs) =
     (case digit_val c of
        None \<Rightarrow> ([], c # cs)
      | Some d \<Rightarrow> apfst (Cons d) (digitpart cs))"
| "digitpart [] = ([], [])"

definition decimal :: "nat list \<Rightarrow> nat" where
  "decimal ds = foldl (\<lambda>a d. 10 * a + d) 0 ds"

fun sign :: "string \<Rightarrow> bool \<times> string" where
  "sign (c # cs) =
     (if c = CHR ''-'' then (True, cs)
      else if c = CHR ''+'' then (False, cs)
      else (False, c # cs))"
| "sign [] = (False, [])"

definition exponent :: "rat \<Rightarrow> string \<Rightarrow> rat option" where
  "exponent m s =
     (case s of
        [] \<Rightarrow> Some m
      | e # r \<Rightarrow>
          if lower e = CHR ''e'' then
            (let (neg, r1) = sign r; (ds, r2) = digitpart r1
             in if ds = [] \<or> r2 \<noteq> [] then None
                else if neg then Some (m / 10 ^ decimal ds)
                else Some (m * 10 ^ decimal ds))
          else None)"

definition floatnumber :: "string \<Rightarrow> rat option" where
  "floatnumber s =
     (let (ip, r1) = digitpart s
      in case r1 of
           c # r2 \<Rightarrow>
             if c = CHR ''.'' then
               (let (fp, r3) = digitpart r2
                in if ip = [] \<and> fp = [] then None
                   else exponent (of_nat (decimal (ip @ fp)) / 10 ^ length fp) r3)
             else if ip = [] then None
             else exponent (of_nat (decimal ip)) r1
         | [] \<Rightarrow> if ip = [] then None else Some (of_nat (decimal ip)))"

definition absfloatvalue :: "string \<Rightarrow> pyfloat option" where
  "absfloatvalue s =
     (if map lower s \<in> set [''inf'', ''infinity''] then Some PosInf
      else if map lower s = ''nan'' then Some NaN
      else map_option Finite (floatnumber s))"

definition py_float :: "string option \<Rightarrow> error + pyfloat" where
  "py_float v =
     (case v of
        None \<Rightarrow> Inl TypeError
      | Some s \<Rightarrow>
          (let (neg, r) = sign (strip s)
           in case absfloatvalue r of
                None \<Rightarrow> Inl ValueError
              | Some x \<Rightarrow> Inr (if neg then float_neg x else x)))"

definition py_int :: "string option \<Rightarrow> error + int" where
  "py_int v =
     (case v of
        None \<Rightarrow> Inl TypeError
      | Some s \<Rightarrow>
          (let (neg, r) = sign (strip s); (ds, r1) = digitpart r
           in if ds = [] \<or> r1 \<noteq> [] then Inl ValueError
              else Inr (if neg then - int (decimal ds) else int (decimal ds))))"

section \<open>Results of effectful code\<close>

text \<open>
  A method that reads and mutates an object is a function from the object's state to a
  result that carries the state it leaves behind: it returns a value, raises an exception,
  or blocks (an \<^verbatim>\<open>await\<close> that does not complete in the modelled instant). \<open>bind\<close> runs a
  continuation after a return and passes a raise or a block on, as statement sequencing
  does.
\<close>

datatype ('a, 's) res = Returned 'a 's | Raised error 's | Blocked 's

definition bind :: "('a, 's) res \<Rightarrow> ('a \<Rightarrow> 's \<Rightarrow> ('b, 's) res) \<Rightarrow> ('b, 's) res" where
  "bind r k = (case r of Returned a s \<Rightarrow> k a s | Raised e s \<Rightarrow> Raised e s | Blocked s \<Rightarrow> Blocked s)"

fun final :: "('a, 's) res \<Rightarrow> 's" where
  "final (Returned a s) = s"
| "final (Raised e s) = s"
| "final (Blocked s) = s"

section \<open>Profiles (\<^verbatim>\<open>models/user_data.py\<close>)\<close>

text \<open>
  One turn of the conversation memory is a dictionary with the keys \<^verbatim>\<open>role\<close> and
  \<^verbatim>\<open>content\<close>. \<^verbatim>\<open>UserData\<close> is the dataclass of the source with its thirteen fields, in
  the source's order. The system prompt is optional because the settings dialog stores
  the text of the incoming message, which is \<^verbatim>\<open>None\<close> for a voice message.
\<close>

type_synonym turn = "string \<times> string"

record UserData =
  user_id :: int
  message_history :: "turn list"
  model :: string
  system_prompt :: "string option"
  temperature :: pyfloat
  top_p :: pyfloat
  max_tokens :: int
  language :: string
  speaker :: string
  is_admin :: bool
  is_whitelisted :: bool
  is_blacklisted :: bool
  last_request :: "nat option"

definition UserData_fields :: "string list" where
  "UserData_fields =
    [''user_id'', ''message_history'', ''model'', ''system_prompt'', ''temperature'',
     ''top_p'', ''max_tokens'', ''language'', ''speaker'', ''is_admin'', ''is_whitelisted'',
     ''is_blacklisted'', ''last_request'']"

text \<open>
  The constructor that \<^verbatim>\<open>@dataclass\<close> generates takes the fields as keywords. Only
  \<^verbatim>\<open>user_id\<close> has no default, and a keyword that is not a field is a \<^verbatim>\<open>TypeError\<close>.
\<close>

definition UserData_init_accepts :: "string list \<Rightarrow> bool" where
  "UserData_init_accepts keywords \<longleftrightarrow>
     ''user_id'' \<in> set keywords \<and> set keywords \<subseteq> set UserData_fields"

text \<open>The configuration values (\<^verbatim>\<open>config.yml\<close>) that the modelled code reads.\<close>

record Config =
  max_message_history_num :: int
  access_mode :: string
  admin_users :: "int list"
  global_max_requests :: nat
  user_max_requests :: nat
  models_default :: string
  models_system_prompt :: string
  models_temperature :: pyfloat
  models_top_p :: pyfloat
  models_max_tokens :: int
  models_available :: "string list"
  config_language :: string
  tts_speaker :: string

text \<open>The field defaults of the dataclass: \<^verbatim>\<open>UserData(user_id=user_id)\<close>.\<close>

definition UserData_default :: "Config \<Rightarrow> int \<Rightarrow> UserData" where
  "UserData_default cfg uid =
     \<lparr>user_id = uid, message_history = [], model = models_default cfg,
      system_prompt = Some (models_system_prompt cfg), temperature = models_temperature cfg,
      top_p = models_top_p cfg, max_tokens = models_max_tokens cfg,
      language = config_language cfg, speaker = tts_speaker cfg, is_admin = False,
      is_whitelisted = False, is_blacklisted = False, last_request = None\<rparr>"

section \<open>The profile store (\<^verbatim>\<open>database/user_data_db.py\<close>)\<close>

text \<open>
  A row of the table \<^verbatim>\<open>users\<close> has the column \<^verbatim>\<open>user_name\<close> and the thirteen columns
  named like the fields of \<^verbatim>\<open>UserData\<close>; the table is keyed by \<^verbatim>\<open>user_id\<close>. The history
  column holds the JSON text of the list and is modelled by the list itself. The cache
  maps a user id to the profile object stored for it; expiry and eviction, which only
  ever remove entries, are not modelled.
\<close>

record users_row =
  user_name :: "string option"
  columns :: UserData

record UserDataDB =
  users :: "int \<rightharpoonup> users_row"
  cache :: "int \<rightharpoonup> UserData"

text \<open>Python's slice \<^verbatim>\<open>xs[i:]\<close>, for any integer \<open>i\<close>.\<close>

definition slice_from :: "'a list \<Rightarrow> int \<Rightarrow> 'a list" where
  "slice_from xs i =
     (let n = int (length xs); j = (if i < 0 then max (n + i) 0 else min i n)
      in drop (nat j) xs)"


text \<open>
  \<^verbatim>\<open>get_user_data\<close>: a cached profile is returned as it is. Otherwise the row is read;
  when there is one, the profile is built by \<^verbatim>\<open>UserData(user_id=..., user_name=..., ...)\<close>
  with one keyword for each of the fourteen columns, cached and returned.
\<close>

definition get_user_data :: "int \<Rightarrow> UserDataDB \<Rightarrow> (UserData option, UserDataDB) res" where
  "get_user_data uid db =
     (case cache db uid of
        Some user_data \<Rightarrow> Returned (Some user_data) db
      | None \<Rightarrow>
          (case users db uid of
             Some r \<Rightarrow>
               if UserData_init_accepts
                    [''user_id'', ''user_name'', ''message_history'', ''model'',
                     ''system_prompt'', ''temperature'', ''top_p'', ''max_tokens'',
                     ''language'', ''speaker'', ''is_admin'', ''is_whitelisted'',
                     ''is_blacklisted'', ''last_request'']
               then Returned (Some (columns r)) (db\<lparr>cache := (cache db)(uid \<mapsto> columns r)\<rparr>)
               else Raised TypeError db
           | None \<Rightarrow> Returned None db))"

text \<open>
  \<^verbatim>\<open>update_user_data\<close>: the dictionary of the profile, with the history cut to
  \<^verbatim>\<open>message_history[-max_message_history_num:]\<close>, replaces the user's row
  (\<^verbatim>\<open>INSERT OR REPLACE\<close>, which names the thirteen fields and so leaves \<^verbatim>\<open>user_name\<close>
  null); then the profile object that was passed in is stored in the cache.
\<close>

definition update_user_data :: "Config \<Rightarrow> UserData \<Rightarrow> UserDataDB \<Rightarrow> (unit, UserDataDB) res" where
  "update_user_data cfg user_data db =
     (let msg_history = slice_from (message_history user_data) (- max_message_history_num cfg);
          data = user_data\<lparr>message_history := msg_history\<rparr>;
          db1 = db\<lparr>users := (users db)(user_id user_data \<mapsto> \<lparr>user_name = None, columns = data\<rparr>)\<rparr>
      in Returned () (db1\<lparr>cache := (cache db1)(user_id user_data \<mapsto> user_data)\<rparr>))"

definition create_user :: "Config \<Rightarrow> int \<Rightarrow> string \<Rightarrow> UserDataDB \<Rightarrow> (unit, UserDataDB) res" where
  "create_user cfg uid uname db =
     (if UserData_init_accepts [''user_id'', ''user_name'']
      then update_user_data cfg (UserData_default cfg uid) db
      else Raised TypeError db)"

text \<open>
  A call of \<^verbatim>\<open>create_user\<close> with a list of positional arguments: the signature binds
  exactly \<^verbatim>\<open>user_id\<close> and \<^verbatim>\<open>user_name\<close>, and any other number of arguments is a
  \<^verbatim>\<open>TypeError\<close> before the body runs.
\<close>

datatype arg = PyInt int | PyStr string

fun call_create_user :: "Config \<Rightarrow> arg list \<Rightarrow> UserDataDB \<Rightarrow> (unit, UserDataDB) res" where
  "call_create_user cfg [PyInt uid, PyStr uname] db = create_user cfg uid uname db"
| "call_create_user cfg args db = Raised TypeError db"






section \<open>The rate limiter\<close>

text \<open>
  Modelled from the spec: the class \<^verbatim>\<open>AsyncLimiter\<close> comes from the library
  \<^verbatim>\<open>aiolimiter\<close>, which is not part of this repository. It is the spec's rate limiter:
  a capacity and the permits available now, a new limiter being full.
  \<^verbatim>\<open>has_capacity(1)\<close> is the probe that neither consumes nor waits; entering
  \<^verbatim>\<open>async with limiter\<close> acquires one permit, and waits for a refill when none is
  available. The refill over time is not modelled: the model is one instant, in which an
  acquire without a permit stays blocked.
\<close>

record AsyncLimiter =
  max_rate :: nat
  available :: nat

definition AsyncLimiter_init :: "nat \<Rightarrow> AsyncLimiter" where
  "AsyncLimiter_init n = \<lparr>max_rate = n, available = n\<rparr>"

definition has_capacity :: "AsyncLimiter \<Rightarrow> nat \<Rightarrow> bool" where
  "has_capacity l amount \<longleftrightarrow> amount \<le> available l"

definition acquire :: "AsyncLimiter \<Rightarrow> AsyncLimiter option" where
  "acquire l = (if has_capacity l 1 then Some (l\<lparr>available := available l - 1\<rparr>) else None)"

section \<open>The bot (\<^verbatim>\<open>bot/telegram_bot.py\<close>)\<close>

text \<open>
  An update carries the effective user, the message (its text, or a voice recording) and
  the data of a callback query; each may be absent. What the bot does to its
  collaborators is recorded as a list of events: the calls on the limiters, the replies
  (by language and localization key), and the jobs it schedules for message processing.
  The transport and the localization tables are external and do not fail in the model.
\<close>

datatype content = Text string | Voice

record Update =
  effective_user :: "int option"
  message :: "content option"
  callback_query :: "string option"

datatype scope = Global | User "int option"

datatype event =
    Has_capacity scope
  | Acquire scope
  | Reply_text string string
  | Edit_text string string
  | Answer
  | Chat_action
  | Run_once_process_message "UserData option"
  | Log_error

text \<open>
  The state of a \<^verbatim>\<open>TelegramBot\<close>: its configuration, the languages of the localization
  table, the provider's speakers, the profile store, the limiters, the entry
  \<^verbatim>\<open>"user_state"\<close> of each user's \<^verbatim>\<open>context.user_data\<close> (absent or a machine in some state),
  the pending \<^verbatim>\<open>reset_state\<close> jobs of the job queue with the time they are due, and the
  clock.
\<close>

record TelegramBot =
  config :: Config
  localization :: "string list"
  speakers :: "string list"
  user_db :: UserDataDB
  global_limiter :: AsyncLimiter
  user_limiters :: "int option \<rightharpoonup> AsyncLimiter"
  user_state :: "int \<rightharpoonup> state"
  reset_jobs :: "(nat \<times> int) list"
  clock :: nat
  events :: "event list"

definition emit :: "event \<Rightarrow> TelegramBot \<Rightarrow> TelegramBot" where
  "emit e s = s\<lparr>events := events s @ [e]\<rparr>"

definition db_call ::
  "(UserDataDB \<Rightarrow> ('a, UserDataDB) res) \<Rightarrow> TelegramBot \<Rightarrow> ('a, TelegramBot) res" where
  "db_call f s =
     (case f (user_db s) of
        Returned a db \<Rightarrow> Returned a (s\<lparr>user_db := db\<rparr>)
      | Raised e db \<Rightarrow> Raised e (s\<lparr>user_db := db\<rparr>)
      | Blocked db \<Rightarrow> Blocked (s\<lparr>user_db := db\<rparr>))"

definition raise_or_return :: "error + 'a \<Rightarrow> 's \<Rightarrow> ('a, 's) res" where
  "raise_or_return x s = (case x of Inl e \<Rightarrow> Raised e s | Inr a \<Rightarrow> Returned a s)"

text \<open>\<^verbatim>\<open>update.effective_user.id\<close>, an \<^verbatim>\<open>AttributeError\<close> when the update has no user.\<close>

definition effective_user_id :: "Update \<Rightarrow> TelegramBot \<Rightarrow> (int, TelegramBot) res" where
  "effective_user_id upd s =
     (case effective_user upd of None \<Rightarrow> Raised AttributeError s | Some uid \<Rightarrow> Returned uid s)"

text \<open>
  \<^verbatim>\<open>loc\<close>: the language of the user's profile, \<^verbatim>\<open>"en"\<close> without a profile, selects the
  table; a language without a table is a \<^verbatim>\<open>KeyError\<close>. The text is identified by the
  language and the key. A user id \<^verbatim>\<open>None\<close> has neither a cache entry nor a row.
\<close>

definition loc :: "string \<Rightarrow> int option \<Rightarrow> TelegramBot \<Rightarrow> (string \<times> string, TelegramBot) res" where
  "loc key user s =
     bind (case user of None \<Rightarrow> Returned None s | Some uid \<Rightarrow> db_call (get_user_data uid) s)
       (\<lambda>user_data s1.
          let lang = (case user_data of Some d \<Rightarrow> language d | None \<Rightarrow> ''en'')
          in if lang \<in> set (localization s1) then Returned (lang, key) s1
             else Raised KeyError s1)"

text \<open>
  \<^verbatim>\<open>await update.message.reply_text(await self.loc(key, user_id))\<close>: the attribute of
  \<^verbatim>\<open>update.message\<close> is looked up first, so an update without a message raises before
  \<^verbatim>\<open>loc\<close> runs. The replies through \<^verbatim>\<open>update.callback_query.message\<close> have no such case.
\<close>

definition reply_text :: "Update \<Rightarrow> string \<Rightarrow> int option \<Rightarrow> TelegramBot \<Rightarrow> (unit, TelegramBot) res" where
  "reply_text upd key user s =
     (if message upd = None then Raised AttributeError s
      else bind (loc key user s) (\<lambda>(lang, k) s1. Returned () (emit (Reply_text lang k) s1)))"

definition query_reply_text :: "string \<Rightarrow> int option \<Rightarrow> TelegramBot \<Rightarrow> (unit, TelegramBot) res" where
  "query_reply_text key user s =
     bind (loc key user s) (\<lambda>(lang, k) s1. Returned () (emit (Reply_text lang k) s1))"

definition query_edit_text :: "string \<Rightarrow> int option \<Rightarrow> TelegramBot \<Rightarrow> (unit, TelegramBot) res" where
  "query_edit_text key user s =
     bind (loc key user s) (\<lambda>(lang, k) s1. Returned () (emit (Edit_text lang k) s1))"

definition get_user_limiter :: "int option \<Rightarrow> TelegramBot \<Rightarrow> AsyncLimiter \<times> TelegramBot" where
  "get_user_limiter user s =
     (case user_limiters s user of
        Some l \<Rightarrow> (l, s)
      | None \<Rightarrow>
          (let l = AsyncLimiter_init (user_max_requests (config s))
           in (l, s\<lparr>user_limiters := (user_limiters s)(user \<mapsto> l)\<rparr>)))"

text \<open>\<^verbatim>\<open>async with self.global_limiter\<close> and \<^verbatim>\<open>async with user_limiter\<close>.\<close>

definition acquire_global :: "TelegramBot \<Rightarrow> (unit, TelegramBot) res" where
  "acquire_global s =
     (let s1 = emit (Acquire Global) s
      in case acquire (global_limiter s1) of
           None \<Rightarrow> Blocked s1
         | Some l \<Rightarrow> Returned () (s1\<lparr>global_limiter := l\<rparr>))"

definition acquire_user :: "int option \<Rightarrow> AsyncLimiter \<Rightarrow> TelegramBot \<Rightarrow> (unit, TelegramBot) res" where
  "acquire_user user user_limiter s =
     (let s1 = emit (Acquire (User user)) s
      in case acquire user_limiter of
           None \<Rightarrow> Blocked s1
         | Some l \<Rightarrow> Returned () (s1\<lparr>user_limiters := (user_limiters s1)(user \<mapsto> l)\<rparr>))"

type_synonym handler = "Update \<Rightarrow> TelegramBot \<Rightarrow> (unit, TelegramBot) res"

text \<open>The decorators. An early \<^verbatim>\<open>return\<close> of a wrapper returns without calling \<open>func\<close>.\<close>

definition rate_limit :: "handler \<Rightarrow> handler" where
  "rate_limit func upd s =
     (let user_id = effective_user upd;
          s1 = emit (Has_capacity Global) s
      in if \<not> has_capacity (global_limiter s1) 1
         then reply_text upd ''NO_GLOBAL_CAPACITY'' user_id s1
         else
           (let (user_limiter, s2) = get_user_limiter user_id s1;
                s3 = emit (Has_capacity (User user_id)) s2
            in if \<not> has_capacity user_limiter 1
               then reply_text upd ''NO_USER_CAPACITY'' user_id s3
               else bind (acquire_global s3)
                      (\<lambda>_ s4. bind (acquire_user user_id user_limiter s4)
                         (\<lambda>_ s5. func upd s5))))"

definition check_user_access :: "int \<Rightarrow> TelegramBot \<Rightarrow> (bool, TelegramBot) res" where
  "check_user_access uid s =
     bind (db_call (get_user_data uid) s)
       (\<lambda>user_data s1.
          case user_data of
            None \<Rightarrow> Returned False s1
          | Some d \<Rightarrow>
              if is_blacklisted d then Returned False s1
              else if access_mode (config s1) = ''whitelist'' \<and> \<not> is_whitelisted d
              then Returned False s1
              else Returned True s1)"

definition user_access_required :: "handler \<Rightarrow> handler" where
  "user_access_required func upd s =
     bind (effective_user_id upd s)
       (\<lambda>user_id s1. bind (check_user_access user_id s1)
          (\<lambda>ok s2. if \<not> ok then reply_text upd ''NO_PERMISSION'' (Some user_id) s2
                    else func upd s2))"

text \<open>
  \<^verbatim>\<open>user_data_required\<close> calls \<^verbatim>\<open>self.user_db.create_user(user_id)\<close>, with the user id as
  the only positional argument, when the user has no profile.
\<close>

definition user_data_required :: "handler \<Rightarrow> handler" where
  "user_data_required func upd s =
     bind (effective_user_id upd s)
       (\<lambda>user_id s1. bind (db_call (get_user_data user_id) s1)
          (\<lambda>user_data s2.
             bind (if user_data = None
                   then db_call (call_create_user (config s2) [PyInt user_id]) s2
                   else Returned () s2)
               (\<lambda>_ s3. func upd s3)))"

definition start_body :: handler where
  "start_body upd s =
     bind (effective_user_id upd s)
       (\<lambda>user_id s1. bind (db_call (get_user_data user_id) s1)
          (\<lambda>user_data s2. reply_text upd ''WELCOME'' (Some user_id) s2))"

definition start :: handler where
  "start = user_data_required (rate_limit start_body)"

section \<open>The settings updates\<close>

text \<open>
  \<^verbatim>\<open>try: ... except ValueError: ...\<close> and \<^verbatim>\<open>try: ... except Exception: ...\<close>. A blocked
  body stays blocked.
\<close>

definition except_ValueError ::
  "('a, 's) res \<Rightarrow> ('s \<Rightarrow> ('a, 's) res) \<Rightarrow> ('a, 's) res" where
  "except_ValueError r h =
     (case r of Raised e s \<Rightarrow> if e = ValueError then h s else Raised e s | _ \<Rightarrow> r)"

definition except_Exception ::
  "('a, 's) res \<Rightarrow> ('s \<Rightarrow> ('a, 's) res) \<Rightarrow> ('a, 's) res" where
  "except_Exception r h = (case r of Raised e s \<Rightarrow> h s | _ \<Rightarrow> r)"

text \<open>
  \<^verbatim>\<open>getattr(user_data, param)\<close> and \<^verbatim>\<open>setattr(user_data, param, value)\<close> for the two float
  parameters, the only ones \<^verbatim>\<open>update_float_setting\<close> is called with, and the read of an
  attribute of the profile when there is none (\<^verbatim>\<open>None\<close> has no such attribute).
\<close>

definition getattr_float :: "UserData option \<Rightarrow> string \<Rightarrow> error + pyfloat" where
  "getattr_float user_data param =
     (case user_data of
        None \<Rightarrow> Inl AttributeError
      | Some d \<Rightarrow>
          if param = ''temperature'' then Inr (temperature d)
          else if param = ''top_p'' then Inr (top_p d)
          else Inl AttributeError)"

definition setattr_float :: "UserData \<Rightarrow> string \<Rightarrow> pyfloat \<Rightarrow> UserData" where
  "setattr_float d param v =
     (if param = ''temperature'' then d\<lparr>temperature := v\<rparr>
      else if param = ''top_p'' then d\<lparr>top_p := v\<rparr>
      else d)"

definition update_model :: "Update \<Rightarrow> UserData option \<Rightarrow> string option \<Rightarrow> TelegramBot \<Rightarrow> (unit, TelegramBot) res" where
  "update_model upd user_data val s =
     bind (effective_user_id upd s)
       (\<lambda>user_id s1.
          case val of
            None \<Rightarrow> reply_text upd ''MODEL_INVALID'' (Some user_id) s1
          | Some v \<Rightarrow>
              if v \<in> set (models_available (config s1)) then
                (case user_data of
                   None \<Rightarrow> Raised AttributeError s1
                 | Some d \<Rightarrow>
                     bind (if v \<noteq> model d
                           then db_call (update_user_data (config s1) (d\<lparr>model := v\<rparr>)) s1
                           else Returned () s1)
                       (\<lambda>_ s2. reply_text upd ''MODEL_SET'' (Some user_id) s2))
              else reply_text upd ''MODEL_INVALID'' (Some user_id) s1)"

definition update_float_setting ::
  "Update \<Rightarrow> UserData option \<Rightarrow> string \<Rightarrow> string option \<Rightarrow> TelegramBot \<Rightarrow> (unit, TelegramBot) res" where
  "update_float_setting upd user_data param val s =
     bind (effective_user_id upd s)
       (\<lambda>user_id s1.
          except_ValueError
            (bind (raise_or_return (py_float val) s1)
               (\<lambda>v s2.
                  if float_le (Finite 0) v \<and> float_le v (Finite 1) then
                    bind (raise_or_return (getattr_float user_data param) s2)
                      (\<lambda>old_value s3.
                         bind (case user_data of
                                 None \<Rightarrow> Raised AttributeError s3
                               | Some d \<Rightarrow>
                                   if float_ne v old_value
                                   then db_call (update_user_data (config s3)
                                          (setattr_float d param v)) s3
                                   else Returned () s3)
                           (\<lambda>_ s4. reply_text upd ''PARAM_SET'' (Some user_id) s4))
                  else reply_text upd ''PARAM_INVALID_VALUE'' (Some user_id) s2))
            (\<lambda>s'. reply_text upd ''PARAM_INVALID_VALUE'' (Some user_id) s'))"

definition update_max_tokens :: "Update \<Rightarrow> UserData option \<Rightarrow> string option \<Rightarrow> TelegramBot \<Rightarrow> (unit, TelegramBot) res" where
  "update_max_tokens upd user_data val s =
     bind (effective_user_id upd s)
       (\<lambda>user_id s1.
          except_ValueError
            (bind (raise_or_return (py_int val) s1)
               (\<lambda>v s2.
                  if v > 0 then
                    (case user_data of
                       None \<Rightarrow> Raised AttributeError s2
                     | Some d \<Rightarrow>
                         bind (if v \<noteq> max_tokens d
                               then db_call (update_user_data (config s2)
                                      (d\<lparr>max_tokens := v\<rparr>)) s2
                               else Returned () s2)
                           (\<lambda>_ s3. reply_text upd ''MAX_TOKENS_SET'' (Some user_id) s3))
                  else reply_text upd ''MAX_TOKENS_INVALID'' (Some user_id) s2))
            (\<lambda>s'. reply_text upd ''MAX_TOKENS_INVALID'' (Some user_id) s'))"

text \<open>
  \<^verbatim>\<open>update_setting\<close> is reached for the system prompt only, so its \<^verbatim>\<open>getattr\<close> and
  \<^verbatim>\<open>setattr\<close> are those of that field.
\<close>

definition update_setting ::
  "Update \<Rightarrow> UserData option \<Rightarrow> string \<Rightarrow> string option \<Rightarrow> TelegramBot \<Rightarrow> (unit, TelegramBot) res" where
  "update_setting upd user_data param val s =
     bind (effective_user_id upd s)
       (\<lambda>user_id s1.
          case user_data of
            None \<Rightarrow> Raised AttributeError s1
          | Some d \<Rightarrow>
              if param \<noteq> ''system_prompt'' then Raised AttributeError s1
              else
                bind (if val \<noteq> system_prompt d
                      then db_call (update_user_data (config s1) (d\<lparr>system_prompt := val\<rparr>)) s1
                      else Returned () s1)
                  (\<lambda>_ s2. reply_text upd ''PARAM_SET'' (Some user_id) s2))"

text \<open>
  \<^verbatim>\<open>state_machine.state.split("_", 1)[1]\<close>: the name of the state after its first
  underscore; \<^verbatim>\<open>'idle'\<close> has none, and the index is out of range.
\<close>

fun state_param :: "state \<Rightarrow> error + string" where
  "state_param idle = Inl IndexError"
| "state_param awaiting_model = Inr ''model''"
| "state_param awaiting_system_prompt = Inr ''system_prompt''"
| "state_param awaiting_temperature = Inr ''temperature''"
| "state_param awaiting_top_p = Inr ''top_p''"
| "state_param awaiting_max_tokens = Inr ''max_tokens''"

definition message_text :: "Update \<Rightarrow> error + string option" where
  "message_text upd =
     (case message upd of
        None \<Rightarrow> Inl AttributeError
      | Some (Text t) \<Rightarrow> Inr (Some t)
      | Some Voice \<Rightarrow> Inr None)"

definition return_to_idle :: "int \<Rightarrow> state \<Rightarrow> TelegramBot \<Rightarrow> (unit, TelegramBot) res" where
  "return_to_idle uid st s =
     bind (raise_or_return (fire ''return_to_idle'' st) s)
       (\<lambda>st' s1. Returned () (s1\<lparr>user_state := (user_state s1)(uid \<mapsto> st')\<rparr>))"

definition handle_setting_update :: "Update \<Rightarrow> UserData option \<Rightarrow> TelegramBot \<Rightarrow> (unit, TelegramBot) res" where
  "handle_setting_update upd user_data s =
     bind (effective_user_id upd s)
       (\<lambda>user_id s1.
          case user_state s1 user_id of
            None \<Rightarrow> Raised KeyError s1
          | Some st \<Rightarrow>
              bind (raise_or_return (message_text upd) s1)
                (\<lambda>val s2.
                   bind (if st = awaiting_model then update_model upd user_data val s2
                         else if st \<in> set [awaiting_temperature, awaiting_top_p] then
                           bind (raise_or_return (state_param st) s2)
                             (\<lambda>param s3. update_float_setting upd user_data param val s3)
                         else if st = awaiting_max_tokens then
                           update_max_tokens upd user_data val s2
                         else
                           bind (raise_or_return (state_param st) s2)
                             (\<lambda>param s3. update_setting upd user_data param val s3))
                     (\<lambda>_ s4. return_to_idle user_id st s4)))"

section \<open>Messages\<close>

definition handle_message_body :: handler where
  "handle_message_body upd s =
     bind (effective_user_id upd s)
       (\<lambda>user_id s1. bind (db_call (get_user_data user_id) s1)
          (\<lambda>user_data s2. bind (acquire_global s2)
             (\<lambda>_ s3.
                except_Exception
                  (if user_state s3 user_id \<noteq> None \<and> user_state s3 user_id \<noteq> Some idle
                   then handle_setting_update upd user_data s3
                   else
                     (let s4 = emit (Run_once_process_message user_data) s3
                      in if message upd = None then Raised AttributeError s4
                         else Returned () (emit Chat_action s4)))
                  (\<lambda>s'. reply_text upd ''HANDLING_ERROR'' (Some user_id) (emit Log_error s')))))"

definition handle_message :: handler where
  "handle_message = user_access_required (user_data_required (rate_limit handle_message_body))"

section \<open>Buttons and the dialog timeout\<close>

text \<open>\<^verbatim>\<open>s.split(":", 1)[1]\<close> for a string \<open>s\<close> that starts with the given prefix.\<close>

definition after_prefix :: "string \<Rightarrow> string \<Rightarrow> string option" where
  "after_prefix p s = (if take (length p) s = p then Some (drop (length p) s) else None)"

definition set_language :: "Update \<Rightarrow> string \<Rightarrow> TelegramBot \<Rightarrow> (unit, TelegramBot) res" where
  "set_language upd lang s =
     bind (effective_user_id upd s)
       (\<lambda>user_id s1. bind (db_call (get_user_data user_id) s1)
          (\<lambda>user_data s2.
             if lang \<in> set (localization s2) then
               (case user_data of
                  None \<Rightarrow> Raised AttributeError s2
                | Some d \<Rightarrow>
                    bind (if lang \<noteq> language d
                          then db_call (update_user_data (config s2) (d\<lparr>language := lang\<rparr>)) s2
                          else Returned () s2)
                      (\<lambda>_ s3. query_edit_text ''LANGUAGE_SET'' (Some user_id) s3))
             else query_edit_text ''LANGUAGE_INVALID'' (Some user_id) s2))"

definition set_speaker :: "Update \<Rightarrow> string \<Rightarrow> TelegramBot \<Rightarrow> (unit, TelegramBot) res" where
  "set_speaker upd spk s =
     bind (effective_user_id upd s)
       (\<lambda>user_id s1. bind (db_call (get_user_data user_id) s1)
          (\<lambda>user_data s2.
             if spk \<in> set (speakers s2) then
               (case user_data of
                  None \<Rightarrow> Raised AttributeError s2
                | Some d \<Rightarrow>
                    bind (if spk \<noteq> speaker d
                          then db_call (update_user_data (config s2) (d\<lparr>speaker := spk\<rparr>)) s2
                          else Returned () s2)
                      (\<lambda>_ s3. query_edit_text ''SPEAKER_SET'' (Some user_id) s3))
             else query_edit_text ''SPEAKER_INVALID'' (Some user_id) s2))"

definition set_model :: "Update \<Rightarrow> string \<Rightarrow> TelegramBot \<Rightarrow> (unit, TelegramBot) res" where
  "set_model upd m s =
     bind (effective_user_id upd s)
       (\<lambda>user_id s1. bind (db_call (get_user_data user_id) s1)
          (\<lambda>user_data s2.
             if m \<in> set (models_available (config s2)) then
               (case user_data of
                  None \<Rightarrow> Raised AttributeError s2
                | Some d \<Rightarrow>
                    bind (if m \<noteq> model d
                          then db_call (update_user_data (config s2) (d\<lparr>model := m\<rparr>)) s2
                          else Returned () s2)
                      (\<lambda>_ s3. query_edit_text ''MODEL_SET'' (Some user_id) s3))
             else query_edit_text ''MODEL_INVALID'' (Some user_id) s2))"

definition show_model_options :: handler where
  "show_model_options upd s =
     bind (effective_user_id upd s)
       (\<lambda>user_id s1. bind (loc ''GO_BACK'' (Some user_id) s1)
          (\<lambda>_ s2. query_edit_text ''CHOOSE_MODEL'' (Some user_id) s2))"

text \<open>The dictionary \<^verbatim>\<open>state_messages\<close> of \<^verbatim>\<open>button\<close>; \<^verbatim>\<open>'idle'\<close> is not a key.\<close>

fun state_messages :: "state \<Rightarrow> error + string" where
  "state_messages idle = Inl KeyError"
| "state_messages awaiting_model = Inr ''AWAITING_MODEL''"
| "state_messages awaiting_system_prompt = Inr ''AWAITING_SYSTEM_PROMPT''"
| "state_messages awaiting_temperature = Inr ''AWAITING_TEMPERATURE''"
| "state_messages awaiting_top_p = Inr ''AWAITING_TOP_P''"
| "state_messages awaiting_max_tokens = Inr ''AWAITING_MAX_TOKENS''"

text \<open>
  \<^verbatim>\<open>context.job_queue.run_once(self.reset_state, 300, data={"user_id": user_id})\<close>: the
  job is due 300 time units from now. \<^verbatim>\<open>reset_state\<close> removes the entry \<^verbatim>\<open>"user_state"\<close>
  of that user.
\<close>

definition run_once_reset_state :: "int \<Rightarrow> TelegramBot \<Rightarrow> TelegramBot" where
  "run_once_reset_state uid s = s\<lparr>reset_jobs := reset_jobs s @ [(clock s + 300, uid)]\<rparr>"

definition reset_state :: "int \<Rightarrow> TelegramBot \<Rightarrow> TelegramBot" where
  "reset_state uid s = s\<lparr>user_state := (user_state s)(uid := None)\<rparr>"

definition button_body :: handler where
  "button_body upd s =
     (case callback_query upd of
        None \<Rightarrow> Raised AttributeError s
      | Some query_data \<Rightarrow>
          bind (effective_user_id upd (emit Answer s))
            (\<lambda>user_id s1.
               if query_data = ''back'' then
                 query_edit_text ''OK'' (Some user_id)
                   (s1\<lparr>user_state := (user_state s1)(user_id := None)\<rparr>)
               else
                 (let st = (case user_state s1 user_id of None \<Rightarrow> initial | Some st0 \<Rightarrow> st0);
                      s2 = s1\<lparr>user_state := (user_state s1)(user_id \<mapsto> st)\<rparr>
                  in case after_prefix ''set_language:'' query_data of
                       Some lang \<Rightarrow> set_language upd lang s2
                     | None \<Rightarrow>
                   (case after_prefix ''set_speaker:'' query_data of
                       Some spk \<Rightarrow> set_speaker upd spk s2
                     | None \<Rightarrow>
                   if query_data = ''set_model'' then show_model_options upd s2
                   else
                   (case after_prefix ''choose_model:'' query_data of
                       Some m \<Rightarrow> set_model upd m s2
                     | None \<Rightarrow>
                         bind (raise_or_return (fire query_data st) s2)
                           (\<lambda>st' s3.
                              let s4 = s3\<lparr>user_state := (user_state s3)(user_id \<mapsto> st')\<rparr>
                              in bind (raise_or_return (state_messages st') s4)
                                   (\<lambda>key s5. bind (query_reply_text key (Some user_id) s5)
                                      (\<lambda>_ s6. Returned () (run_once_reset_state user_id s6)))))))))"

definition button :: handler where
  "button = user_access_required (user_data_required (rate_limit button_body))"

text \<open>
  Time passes until \<open>t\<close>: the job queue runs every pending \<^verbatim>\<open>reset_state\<close> job that is due
  by then and keeps the others.
\<close>

fun run_jobs :: "(nat \<times> int) list \<Rightarrow> TelegramBot \<Rightarrow> TelegramBot" where
  "run_jobs [] s = s"
| "run_jobs ((due, uid) # js) s = run_jobs js (reset_state uid s)"

definition advance :: "nat \<Rightarrow> TelegramBot \<Rightarrow> TelegramBot" where
  "advance t s =
     run_jobs (filter (\<lambda>(due, uid). due \<le> t) (reset_jobs s))
       (s\<lparr>reset_jobs := filter (\<lambda>(due, uid). t < due) (reset_jobs s), clock := max t (clock s)\<rparr>)"

section \<open>Vocabulary of the properties\<close>

text \<open>The bot after \<^verbatim>\<open>await self.user_db.update_user_data(d)\<close>.\<close>

definition store_profile :: "UserData \<Rightarrow> TelegramBot \<Rightarrow> TelegramBot" where
  "store_profile d s = s\<lparr>user_db := final (update_user_data (config s) d (user_db s))\<rparr>"

text \<open>
  The situation in which a handler body runs behind its decorators: the update comes
  from user \<open>uid\<close>, whose profile \<open>d\<close> is in the cache under that id, in a language that
  has a localization table.
\<close>

definition serves :: "TelegramBot \<Rightarrow> Update \<Rightarrow> int \<Rightarrow> UserData \<Rightarrow> bool" where
  "serves s upd uid d \<longleftrightarrow>
     effective_user upd = Some uid \<and> cache (user_db s) uid = Some d \<and> user_id d = uid \<and>
     language d \<in> set (localization s)"




text \<open>
  The state in which \<open>rate_limit\<close> starts the handler of an admitted update: one permit
  of the global limiter and one of the user's limiter are consumed, and the limiters were
  called in this order.
\<close>

definition admitted :: "Update \<Rightarrow> TelegramBot \<Rightarrow> TelegramBot" where
  "admitted upd s =
     (let user = effective_user upd; l = fst (get_user_limiter user s)
      in s\<lparr>global_limiter := (global_limiter s)\<lparr>available := available (global_limiter s) - 1\<rparr>,
           user_limiters := (user_limiters s)(user \<mapsto> l\<lparr>available := available l - 1\<rparr>),
           events := events s @ [Has_capacity Global, Has_capacity (User user),
                                 Acquire Global, Acquire (User user)]\<rparr>)"

fun is_blocked :: "('a, 's) res \<Rightarrow> bool" where
  "is_blocked (Blocked s) = True"
| "is_blocked r = False"

text \<open>The profile may use the bot under the configured access mode.\<close>

definition has_access :: "TelegramBot \<Rightarrow> UserData \<Rightarrow> bool" where
  "has_access s d \<longleftrightarrow>
     \<not> is_blacklisted d \<and> (access_mode (config s) = ''whitelist'' \<longrightarrow> is_whitelisted d)"

section \<open>Concrete inputs\<close>

text \<open>A configuration and a store used where a property is evaluated at a concrete input.\<close>

definition example_config :: Config where
  "example_config =
     \<lparr>max_message_history_num = 2, access_mode = ''all'', admin_users = [1],
      global_max_requests = 2, user_max_requests = 1, models_default = ''llama3'',
      models_system_prompt = ''You are helpful.'', models_temperature = Finite (7 / 10),
      models_top_p = Finite (9 / 10), models_max_tokens = 512,
      models_available = [''llama3'', ''mistral''], config_language = ''en'',
      tts_speaker = ''Ana''\<rparr>"

definition empty_db :: UserDataDB where
  "empty_db = \<lparr>users = Map.empty, cache = Map.empty\<rparr>"

definition three_turns :: "turn list" where
  "three_turns = [(''user'', ''one''), (''assistant'', ''two''), (''user'', ''three'')]"

text \<open>
  User 7 with the default profile, stored and cached, in a bot whose global limiter
  holds two permits; a text message and a callback query of that user.
\<close>

definition example_profile :: UserData where
  "example_profile = UserData_default example_config 7"

definition example_db :: UserDataDB where
  "example_db =
     \<lparr>users = [7 \<mapsto> \<lparr>user_name = None, columns = example_profile\<rparr>],
      cache = [7 \<mapsto> example_profile]\<rparr>"

definition example_bot :: TelegramBot where
  "example_bot =
     \<lparr>config = example_config, localization = [''en'', ''ru''], speakers = [''Ana''],
      user_db = example_db, global_limiter = AsyncLimiter_init 2,
      user_limiters = Map.empty, user_state = Map.empty, reset_jobs = [], clock = 0,
      events = []\<rparr>"

definition text_update :: "int \<Rightarrow> string \<Rightarrow> Update" where
  "text_update uid t = \<lparr>effective_user = Some uid, message = Some (Text t), callback_query = None\<rparr>"


text \<open>
  The bot with an exhausted global limiter, and the bot in which user 7 has used up the
  one permit of the user limiter.
\<close>

definition globally_exhausted_bot :: TelegramBot where
  "globally_exhausted_bot = example_bot\<lparr>global_limiter := \<lparr>max_rate = 2, available = 0\<rparr>\<rparr>"






section \<open>Properties of the state machine\<close>






section \<open>Properties of the profile store\<close>

lemma slice_from_last:
  "0 < n \<Longrightarrow> slice_from xs (- n) = drop (length xs - nat n) xs"
  by (auto simp: slice_from_def Let_def max_def intro: arg_cong [where f = "\<lambda>k. drop k xs"])

lemma update_user_data_persisted:
  "users (final (update_user_data cfg ud db)) (user_id ud) =
     Some \<lparr>user_name = None,
           columns = ud\<lparr>message_history :=
             slice_from (message_history ud) (- max_message_history_num cfg)\<rparr>\<rparr>"
  by (simp add: update_user_data_def Let_def)

lemma update_user_data_cached:
  "cache (final (update_user_data cfg ud db)) (user_id ud) = Some ud"
  by (simp add: update_user_data_def Let_def)

text \<open>
  Claim C2, evaluated where it fails. With a configured maximum of two turns, a profile
  with three turns is updated: the row holds the last two turns, the cache entry holds
  all three, so the cached profile is not the persisted one.
\<close>

theorem update_user_data_cache_not_truncated:
  "map_option (message_history \<circ> columns)
     (users (final (update_user_data example_config
        ((UserData_default example_config 7)\<lparr>message_history := three_turns\<rparr>) empty_db)) 7) =
     Some [(''assistant'', ''two''), (''user'', ''three'')] \<and>
   map_option message_history
     (cache (final (update_user_data example_config
        ((UserData_default example_config 7)\<lparr>message_history := three_turns\<rparr>) empty_db)) 7) =
     Some [(''user'', ''one''), (''assistant'', ''two''), (''user'', ''three'')]"
  by (simp add: update_user_data_def Let_def slice_from_def UserData_default_def
      example_config_def empty_db_def three_turns_def)








section \<open>Properties of the settings updates\<close>

lemma db_call_get_cached:
  "cache (user_db s) uid = Some d \<Longrightarrow> db_call (get_user_data uid) s = Returned (Some d) s"
  by (simp add: db_call_def get_user_data_def)




lemma store_profile_cache [simp]:
  "cache (user_db (store_profile d s)) = (cache (user_db s))(user_id d \<mapsto> d)"
  by (simp add: store_profile_def update_user_data_def Let_def)

lemma store_profile_fields [simp]:
  "localization (store_profile d s) = localization s"
  "config (store_profile d s) = config s"
  "user_state (store_profile d s) = user_state s"
  "events (store_profile d s) = events s"
  "global_limiter (store_profile d s) = global_limiter s"
  "user_limiters (store_profile d s) = user_limiters s"
  "reset_jobs (store_profile d s) = reset_jobs s"
  by (simp_all add: store_profile_def)

lemma py_float_not_TypeError: "py_float (Some txt) \<noteq> Inl TypeError"
  by (simp add: py_float_def Let_def split: prod.splits option.splits)















lemma example_serves: "serves example_bot (text_update 7 txt) 7 example_profile"
  by (simp add: serves_def example_bot_def text_update_def example_db_def example_profile_def
      UserData_default_def example_config_def)

lemma text_update_message: "message (text_update uid txt) \<noteq> None"
  by (simp add: text_update_def)


section \<open>Properties of the settings dialog\<close>


lemma emit_fields [simp]:
  "user_state (emit e s) = user_state s"
  "user_db (emit e s) = user_db s"
  "config (emit e s) = config s"
  "localization (emit e s) = localization s"
  "global_limiter (emit e s) = global_limiter s"
  "user_limiters (emit e s) = user_limiters s"
  "reset_jobs (emit e s) = reset_jobs s"
  "clock (emit e s) = clock s"
  "events (emit e s) = events s @ [e]"
  by (simp_all add: emit_def)












section \<open>Creation of the default profile\<close>

lemma create_user_raises: "create_user cfg uid uname db = Raised TypeError db"
  by (simp add: create_user_def UserData_init_accepts_def UserData_fields_def)

lemma call_create_user_one_argument: "call_create_user cfg [PyInt uid] db = Raised TypeError db"
  by simp

lemma user_data_required_no_profile:
  assumes "effective_user upd = Some uid" and "cache (user_db s) uid = None"
    and "users (user_db s) uid = None"
  shows "user_data_required func upd s = Raised TypeError s"
  using assms
  by (simp add: user_data_required_def effective_user_id_def bind_def db_call_def
      get_user_data_def)

text \<open>
  Claim C1, evaluated where it fails. User 8 has no profile and sends \<^verbatim>\<open>/start\<close>.
  \<open>user_data_required\<close> finds no profile and calls \<open>create_user\<close> with the user id alone;
  the call raises \<open>TypeError\<close>, no profile is created, the handler does not run and the
  exception reaches the caller. \<open>create_user\<close> called with both arguments raises as well,
  because it passes \<open>user_name\<close> to the dataclass, which has no such field.
\<close>

theorem user_data_required_new_user_raises:
  "start (text_update 8 ''/start'') (example_bot\<lparr>user_db := empty_db\<rparr>) =
     Raised TypeError (example_bot\<lparr>user_db := empty_db\<rparr>) \<and>
   create_user example_config 8 ''Bob'' empty_db = Raised TypeError empty_db"
proof -
  have "start (text_update 8 ''/start'') (example_bot\<lparr>user_db := empty_db\<rparr>) =
      Raised TypeError (example_bot\<lparr>user_db := empty_db\<rparr>)"
    unfolding start_def
    by (rule user_data_required_no_profile [where uid = 8])
      (simp_all add: text_update_def empty_db_def)
  then show ?thesis by (simp add: create_user_raises)
qed

section \<open>Properties of the admission control\<close>

lemma loc_frame:
  "global_limiter (final (loc key user s)) = global_limiter s \<and>
   user_limiters (final (loc key user s)) = user_limiters s \<and>
   events (final (loc key user s)) = events s \<and>
   \<not> is_blocked (loc key user s)"
proof (cases user)
  case None
  then show ?thesis by (simp add: loc_def bind_def Let_def)
next
  case (Some uid)
  then show ?thesis
    by (cases "get_user_data uid (user_db s)")
      (auto simp: loc_def bind_def db_call_def Let_def get_user_data_def
        split: option.splits if_splits)
qed

lemma loc_key: "loc key user s = Returned (lang, k) s1 \<Longrightarrow> k = key"
  by (auto simp: loc_def bind_def Let_def split: res.splits if_splits)

lemma reply_text_frame:
  "global_limiter (final (reply_text upd key user s)) = global_limiter s \<and>
   user_limiters (final (reply_text upd key user s)) = user_limiters s \<and>
   (events (final (reply_text upd key user s)) = events s \<or>
    (\<exists>lang. events (final (reply_text upd key user s)) = events s @ [Reply_text lang key])) \<and>
   \<not> is_blocked (reply_text upd key user s)"
proof (cases "message upd = None")
  case True
  then show ?thesis by (simp add: reply_text_def)
next
  case False
  show ?thesis
  proof (cases "loc key user s")
    case (Returned a s1)
    with False loc_frame [of key user s] show ?thesis
      by (cases a) (auto simp: reply_text_def bind_def dest: loc_key)
  next
    case (Raised e s1)
    with False loc_frame [of key user s] show ?thesis
      by (simp add: reply_text_def bind_def)
  next
    case (Blocked s1)
    with False loc_frame [of key user s] show ?thesis
      by (simp add: reply_text_def bind_def)
  qed
qed

lemma rate_limit_no_global_capacity:
  "\<not> has_capacity (global_limiter s) 1 \<Longrightarrow>
   rate_limit func upd s =
     reply_text upd ''NO_GLOBAL_CAPACITY'' (effective_user upd) (emit (Has_capacity Global) s)"
  by (simp add: rate_limit_def Let_def)

lemma get_user_limiter_emit:
  "get_user_limiter user (emit e s) =
     (fst (get_user_limiter user s), emit e (snd (get_user_limiter user s)))"
  by (simp add: get_user_limiter_def emit_def Let_def split: option.splits)

lemma get_user_limiter_snd:
  "snd (get_user_limiter user s) =
     s\<lparr>user_limiters := (user_limiters s)(user \<mapsto> fst (get_user_limiter user s))\<rparr>"
  by (auto simp: get_user_limiter_def Let_def map_upd_triv split: option.splits)

lemma rate_limit_no_user_capacity:
  "has_capacity (global_limiter s) 1 \<Longrightarrow>
   \<not> has_capacity (fst (get_user_limiter (effective_user upd) s)) 1 \<Longrightarrow>
   rate_limit func upd s =
     reply_text upd ''NO_USER_CAPACITY'' (effective_user upd)
       (emit (Has_capacity (User (effective_user upd)))
          (emit (Has_capacity Global) (snd (get_user_limiter (effective_user upd) s))))"
  by (simp add: rate_limit_def Let_def get_user_limiter_emit)

lemma rate_limit_admitted:
  assumes "has_capacity (global_limiter s) 1"
    and "has_capacity (fst (get_user_limiter (effective_user upd) s)) 1"
  shows "rate_limit func upd s = func upd (admitted upd s)"
proof -
  have snd: "snd (get_user_limiter (effective_user upd) s) =
      s\<lparr>user_limiters := (user_limiters s)(effective_user upd \<mapsto>
          fst (get_user_limiter (effective_user upd) s))\<rparr>"
    by (rule get_user_limiter_snd)
  from assms have "rate_limit func upd s =
      func upd ((emit (Acquire (User (effective_user upd)))
        ((emit (Acquire Global) (emit (Has_capacity (User (effective_user upd)))
           (emit (Has_capacity Global) (snd (get_user_limiter (effective_user upd) s)))))
         \<lparr>global_limiter := (global_limiter s)\<lparr>available := available (global_limiter s) - 1\<rparr>\<rparr>))
        \<lparr>user_limiters := (user_limiters s)(effective_user upd \<mapsto>
           (fst (get_user_limiter (effective_user upd) s))
             \<lparr>available := available (fst (get_user_limiter (effective_user upd) s)) - 1\<rparr>)\<rparr>)"
    by (simp add: rate_limit_def Let_def get_user_limiter_emit acquire_global_def
        acquire_user_def acquire_def bind_def snd)
  also have "\<dots> = func upd (admitted upd s)"
    by (rule arg_cong [where f = "func upd"], rule TelegramBot.equality)
      (simp_all add: snd emit_def admitted_def Let_def)
  finally show ?thesis .
qed

lemma admitted_fields [simp]:
  "user_db (admitted upd s) = user_db s"
  "config (admitted upd s) = config s"
  "localization (admitted upd s) = localization s"
  "user_state (admitted upd s) = user_state s"
  "reset_jobs (admitted upd s) = reset_jobs s"
  "clock (admitted upd s) = clock s"
  "available (global_limiter (admitted upd s)) = available (global_limiter s) - 1"
  "events (admitted upd s) =
     events s @ [Has_capacity Global, Has_capacity (User (effective_user upd)),
                 Acquire Global, Acquire (User (effective_user upd))]"
  "user_limiters (admitted upd s) (effective_user upd) =
     Some ((fst (get_user_limiter (effective_user upd) s))
       \<lparr>available := available (fst (get_user_limiter (effective_user upd) s)) - 1\<rparr>)"
  by (simp_all add: admitted_def Let_def)

lemma example_has_capacity:
  "has_capacity (global_limiter example_bot) 1"
  "has_capacity (fst (get_user_limiter (Some 7) example_bot)) 1"
  by (simp_all add: example_bot_def has_capacity_def get_user_limiter_def AsyncLimiter_init_def
      example_config_def Let_def)

text \<open>
  Claim C5. \<open>rate_limit\<close> asks the global limiter first. When the global limiter has no
  capacity, the wrapper only sends the reply \<open>NO_GLOBAL_CAPACITY\<close>: the handler is not
  called, no limiter of a user is asked, acquired or created, and the map of user limiters
  is what it was. When the global limiter has capacity and the user's limiter has none,
  the wrapper only sends \<open>NO_USER_CAPACITY\<close>. The handler runs only when both checks
  succeeded, after the limiters were called in the order global check, user check, global
  acquire, user acquire.
\<close>

theorem admission_order:
  "(\<not> has_capacity (global_limiter s) 1 \<longrightarrow>
      rate_limit func upd s =
        reply_text upd ''NO_GLOBAL_CAPACITY'' (effective_user upd)
          (emit (Has_capacity Global) s) \<and>
      user_limiters (final (rate_limit func upd s)) = user_limiters s \<and>
      (events (final (rate_limit func upd s)) = events s @ [Has_capacity Global] \<or>
       (\<exists>lang. events (final (rate_limit func upd s)) =
          events s @ [Has_capacity Global, Reply_text lang ''NO_GLOBAL_CAPACITY'']))) \<and>
   (has_capacity (global_limiter s) 1 \<and>
    \<not> has_capacity (fst (get_user_limiter (effective_user upd) s)) 1 \<longrightarrow>
      rate_limit func upd s =
        reply_text upd ''NO_USER_CAPACITY'' (effective_user upd)
          (emit (Has_capacity (User (effective_user upd)))
             (emit (Has_capacity Global) (snd (get_user_limiter (effective_user upd) s)))) \<and>
      (events (final (rate_limit func upd s)) =
         events s @ [Has_capacity Global, Has_capacity (User (effective_user upd))] \<or>
       (\<exists>lang. events (final (rate_limit func upd s)) =
          events s @ [Has_capacity Global, Has_capacity (User (effective_user upd)),
                      Reply_text lang ''NO_USER_CAPACITY'']))) \<and>
   (has_capacity (global_limiter s) 1 \<and>
    has_capacity (fst (get_user_limiter (effective_user upd) s)) 1 \<longrightarrow>
      rate_limit func upd s = func upd (admitted upd s) \<and>
      events (admitted upd s) =
        events s @ [Has_capacity Global, Has_capacity (User (effective_user upd)),
                    Acquire Global, Acquire (User (effective_user upd))])"
proof (intro conjI impI)
  assume no: "\<not> has_capacity (global_limiter s) 1"
  show eq: "rate_limit func upd s =
      reply_text upd ''NO_GLOBAL_CAPACITY'' (effective_user upd) (emit (Has_capacity Global) s)"
    by (rule rate_limit_no_global_capacity [OF no])
  show "user_limiters (final (rate_limit func upd s)) = user_limiters s"
    using reply_text_frame
      [of upd "''NO_GLOBAL_CAPACITY''" "effective_user upd" "emit (Has_capacity Global) s"]
    by (simp add: eq)
  show "events (final (rate_limit func upd s)) = events s @ [Has_capacity Global] \<or>
      (\<exists>lang. events (final (rate_limit func upd s)) =
         events s @ [Has_capacity Global, Reply_text lang ''NO_GLOBAL_CAPACITY''])"
    using reply_text_frame
      [of upd "''NO_GLOBAL_CAPACITY''" "effective_user upd" "emit (Has_capacity Global) s"]
    by (simp add: eq)
next
  assume "has_capacity (global_limiter s) 1 \<and>
      \<not> has_capacity (fst (get_user_limiter (effective_user upd) s)) 1"
  then have eq: "rate_limit func upd s =
      reply_text upd ''NO_USER_CAPACITY'' (effective_user upd)
        (emit (Has_capacity (User (effective_user upd)))
           (emit (Has_capacity Global) (snd (get_user_limiter (effective_user upd) s))))"
    by (simp add: rate_limit_no_user_capacity)
  have ev: "events (snd (get_user_limiter (effective_user upd) s)) = events s"
    by (simp add: get_user_limiter_def Let_def split: option.splits)
  show "rate_limit func upd s =
      reply_text upd ''NO_USER_CAPACITY'' (effective_user upd)
        (emit (Has_capacity (User (effective_user upd)))
           (emit (Has_capacity Global) (snd (get_user_limiter (effective_user upd) s))))"
    by (rule eq)
  show "events (final (rate_limit func upd s)) =
        events s @ [Has_capacity Global, Has_capacity (User (effective_user upd))] \<or>
      (\<exists>lang. events (final (rate_limit func upd s)) =
         events s @ [Has_capacity Global, Has_capacity (User (effective_user upd)),
                     Reply_text lang ''NO_USER_CAPACITY''])"
    using reply_text_frame
      [of upd "''NO_USER_CAPACITY''" "effective_user upd"
        "emit (Has_capacity (User (effective_user upd)))
           (emit (Has_capacity Global) (snd (get_user_limiter (effective_user upd) s)))"]
    by (simp add: eq ev)
next
  assume "has_capacity (global_limiter s) 1 \<and>
      has_capacity (fst (get_user_limiter (effective_user upd) s)) 1"
  then show "rate_limit func upd s = func upd (admitted upd s)"
    by (simp add: rate_limit_admitted)
next
  show "events (admitted upd s) =
      events s @ [Has_capacity Global, Has_capacity (User (effective_user upd)),
                  Acquire Global, Acquire (User (effective_user upd))]"
    by simp
qed

theorem admission_order_witness:
  "\<not> has_capacity (global_limiter globally_exhausted_bot) 1 \<and>
   user_limiters
     (final (rate_limit handle_message_body (text_update 7 ''hi'') globally_exhausted_bot)) =
     user_limiters globally_exhausted_bot \<and>
   has_capacity (global_limiter example_bot) 1 \<and>
   has_capacity (fst (get_user_limiter (effective_user (text_update 7 ''hi'')) example_bot)) 1 \<and>
   rate_limit handle_message_body (text_update 7 ''hi'') example_bot =
     handle_message_body (text_update 7 ''hi'') (admitted (text_update 7 ''hi'') example_bot)"
proof -
  have no: "\<not> has_capacity (global_limiter globally_exhausted_bot) 1"
    by (simp add: globally_exhausted_bot_def has_capacity_def)
  have user: "effective_user (text_update 7 ''hi'') = Some 7"
    by (simp add: text_update_def)
  from admission_order [of globally_exhausted_bot handle_message_body "text_update 7 ''hi''"] no
  have untouched: "user_limiters
      (final (rate_limit handle_message_body (text_update 7 ''hi'') globally_exhausted_bot)) =
      user_limiters globally_exhausted_bot"
    by blast
  from admission_order [of example_bot handle_message_body "text_update 7 ''hi''"]
    example_has_capacity user
  have run: "rate_limit handle_message_body (text_update 7 ''hi'') example_bot =
      handle_message_body (text_update 7 ''hi'') (admitted (text_update 7 ''hi'') example_bot)"
    by simp
  show ?thesis
    using no untouched run user example_has_capacity by simp
qed






lemma check_user_access_granted:
  assumes "serves s upd uid d" and "has_access s d"
  shows "check_user_access uid s = Returned True s"
  using assms
  by (auto simp: check_user_access_def serves_def has_access_def bind_def db_call_get_cached)

lemma user_access_required_granted:
  assumes "serves s upd uid d" and "has_access s d"
  shows "user_access_required func upd s = func upd s"
  using assms check_user_access_granted [OF assms]
  by (simp add: user_access_required_def serves_def effective_user_id_def bind_def)

lemma user_data_required_cached:
  assumes "serves s upd uid d"
  shows "user_data_required func upd s = func upd s"
  using assms
  by (simp add: user_data_required_def serves_def effective_user_id_def bind_def
      db_call_get_cached)

lemma handle_message_body_no_dialog:
  assumes "serves t upd uid d" and "message upd \<noteq> None"
    and "user_state t uid = None \<or> user_state t uid = Some idle"
  shows "handle_message_body upd t =
           (if has_capacity (global_limiter t) 1
            then Returned ()
                   (emit Chat_action (emit (Run_once_process_message (Some d))
                      ((emit (Acquire Global) t)
                         \<lparr>global_limiter :=
                            (global_limiter t)\<lparr>available := available (global_limiter t) - 1\<rparr>\<rparr>)))
            else Blocked (emit (Acquire Global) t))"
  using assms
  by (auto simp: handle_message_body_def serves_def effective_user_id_def bind_def
      db_call_get_cached acquire_global_def acquire_def Let_def except_Exception_def)

lemma serves_admitted: "serves s upd uid d \<Longrightarrow> serves (admitted upd s) upd uid d"
  by (simp add: serves_def)

text \<open>
  Claim C10. A text or voice message of a user who is not in a settings dialog, by a user
  with access and a cached profile, that passes both admission checks: the decorator
  acquires the global limiter once and the body of \<open>handle_message\<close> acquires it again.
  When the global limiter had at least two permits, the message is processed and two
  permits of the global limiter are gone, the events showing both acquisitions; when it
  had just the one that passed the check, the decorator takes it and the second acquire
  in the body blocks.
\<close>

theorem handle_message_acquires_global_twice:
  assumes "serves s upd uid d" and "has_access s d" and "message upd \<noteq> None"
    and "user_state s uid = None \<or> user_state s uid = Some idle"
    and "has_capacity (global_limiter s) 1"
    and "has_capacity (fst (get_user_limiter (effective_user upd) s)) 1"
  shows "if 2 \<le> available (global_limiter s)
         then \<exists>s'. handle_message upd s = Returned () s' \<and>
                available (global_limiter s') + 2 = available (global_limiter s) \<and>
                events s' =
                  events s @ [Has_capacity Global, Has_capacity (User (Some uid)),
                              Acquire Global, Acquire (User (Some uid)), Acquire Global,
                              Run_once_process_message (Some d), Chat_action]
         else handle_message upd s = Blocked (emit (Acquire Global) (admitted upd s))"
proof -
  have user: "effective_user upd = Some uid"
    using assms(1) by (simp add: serves_def)
  have "handle_message upd s = rate_limit handle_message_body upd s"
    unfolding handle_message_def
    by (simp add: user_access_required_granted [OF assms(1,2)]
        user_data_required_cached [OF assms(1)])
  also have "\<dots> = handle_message_body upd (admitted upd s)"
    by (rule rate_limit_admitted [OF assms(5,6)])
  also have "\<dots> =
      (if has_capacity (global_limiter (admitted upd s)) 1
       then Returned ()
              (emit Chat_action (emit (Run_once_process_message (Some d))
                 ((emit (Acquire Global) (admitted upd s))
                    \<lparr>global_limiter :=
                       (global_limiter (admitted upd s))
                         \<lparr>available := available (global_limiter (admitted upd s)) - 1\<rparr>\<rparr>)))
       else Blocked (emit (Acquire Global) (admitted upd s)))"
    using assms(3,4) by (intro handle_message_body_no_dialog [OF serves_admitted [OF assms(1)]]) simp_all
  finally have run: "handle_message upd s =
      (if has_capacity (global_limiter (admitted upd s)) 1
       then Returned ()
              (emit Chat_action (emit (Run_once_process_message (Some d))
                 ((emit (Acquire Global) (admitted upd s))
                    \<lparr>global_limiter :=
                       (global_limiter (admitted upd s))
                         \<lparr>available := available (global_limiter (admitted upd s)) - 1\<rparr>\<rparr>)))
       else Blocked (emit (Acquire Global) (admitted upd s)))" .
  have second: "has_capacity (global_limiter (admitted upd s)) 1 \<longleftrightarrow>
      2 \<le> available (global_limiter s)"
    by (auto simp: has_capacity_def)
  show ?thesis
  proof (cases "2 \<le> available (global_limiter s)")
    case True
    with run second user show ?thesis by (simp add: emit_def)
  next
    case False
    with run second show ?thesis by simp
  qed
qed

theorem handle_message_acquires_global_twice_witness:
  "serves example_bot (text_update 7 ''hello'') 7 example_profile \<and>
   has_access example_bot example_profile \<and>
   message (text_update 7 ''hello'') \<noteq> None \<and>
   (user_state example_bot 7 = None \<or> user_state example_bot 7 = Some idle) \<and>
   has_capacity (global_limiter example_bot) 1 \<and>
   has_capacity (fst (get_user_limiter (effective_user (text_update 7 ''hello'')) example_bot)) 1 \<and>
   2 \<le> available (global_limiter example_bot) \<and>
   (\<exists>s'. handle_message (text_update 7 ''hello'') example_bot = Returned () s' \<and>
      available (global_limiter s') + 2 = available (global_limiter example_bot) \<and>
      events s' =
        events example_bot @ [Has_capacity Global, Has_capacity (User (Some 7)),
                    Acquire Global, Acquire (User (Some 7)), Acquire Global,
                    Run_once_process_message (Some example_profile), Chat_action])"
proof -
  have access: "has_access example_bot example_profile"
    by (simp add: has_access_def example_bot_def example_profile_def UserData_default_def
        example_config_def)
  have idle: "user_state example_bot 7 = None \<or> user_state example_bot 7 = Some idle"
    by (simp add: example_bot_def)
  have user: "effective_user (text_update 7 ''hello'') = Some 7"
    by (simp add: text_update_def)
  have user_capacity:
    "has_capacity (fst (get_user_limiter (effective_user (text_update 7 ''hello'')) example_bot)) 1"
    using example_has_capacity(2) by (simp add: user)
  have two: "2 \<le> available (global_limiter example_bot)"
    by (simp add: example_bot_def AsyncLimiter_init_def)
  from handle_message_acquires_global_twice
    [OF example_serves access text_update_message idle example_has_capacity(1) user_capacity] two
  have "\<exists>s'. handle_message (text_update 7 ''hello'') example_bot = Returned () s' \<and>
      available (global_limiter s') + 2 = available (global_limiter example_bot) \<and>
      events s' =
        events example_bot @ [Has_capacity Global, Has_capacity (User (Some 7)),
                    Acquire Global, Acquire (User (Some 7)), Acquire Global,
                    Run_once_process_message (Some example_profile), Chat_action]"
    by simp
  then show ?thesis
    using example_serves [of "''hello''"] access text_update_message [of 7 "''hello''"] idle
      example_has_capacity(1) user_capacity two
    by blast
qed

section \<open>Properties of the dialog timeout\<close>

lemma run_jobs_user_state:
  "user_state (run_jobs js s) u = (if u \<in> snd ` set js then None else user_state s u)"
proof (induction js arbitrary: s)
  case Nil
  then show ?case by simp
next
  case (Cons j js)
  obtain due uid where j: "j = (due, uid)" by (cases j)
  show ?case
    unfolding j using Cons.IH [of "reset_state uid s"]
    by (simp add: reset_state_def)
qed

lemma run_jobs_fields [simp]:
  "user_db (run_jobs js s) = user_db s"
  "reset_jobs (run_jobs js s) = reset_jobs s"
  "clock (run_jobs js s) = clock s"
  "events (run_jobs js s) = events s"
  "global_limiter (run_jobs js s) = global_limiter s"
  "user_limiters (run_jobs js s) = user_limiters s"
  "config (run_jobs js s) = config s"
  "localization (run_jobs js s) = localization s"
  by (induction js arbitrary: s) (auto simp: reset_state_def)


lemma advance_keeps:
  "(\<And>due. (due, uid) \<in> set (reset_jobs s) \<Longrightarrow> t < due) \<Longrightarrow>
   user_state (advance t s) uid = user_state s uid"
  by (force simp: advance_def run_jobs_user_state)













end
